theory Spec2Isabelle
  imports Main "HOL-Library.Sublist"
begin

section \<open>Text as sequences of code points\<close>

text \<open>
  The module \<^verbatim>\<open>arabic_nlp_utils/numbers.py\<close> works on Python \<^verbatim>\<open>str\<close> values, which are
  sequences of Unicode code points. A text is therefore a list of code points (natural
  numbers), and every string literal of the source is written out code point by code point.
  The letters that occur in the literals are named after their Unicode names.
\<close>

type_synonym ustring = "nat list"

abbreviation SPACE :: nat where "SPACE \<equiv> 0x20"
abbreviation ALEF_MADDA :: nat where "ALEF_MADDA \<equiv> 0x622"
abbreviation ALEF_HAMZA :: nat where "ALEF_HAMZA \<equiv> 0x623"
abbreviation YEH_HAMZA :: nat where "YEH_HAMZA \<equiv> 0x626"
abbreviation ALEF :: nat where "ALEF \<equiv> 0x627"
abbreviation BEH :: nat where "BEH \<equiv> 0x628"
abbreviation TEH_MARBUTA :: nat where "TEH_MARBUTA \<equiv> 0x629"
abbreviation TEH :: nat where "TEH \<equiv> 0x62A"
abbreviation THEH :: nat where "THEH \<equiv> 0x62B"
abbreviation HAH :: nat where "HAH \<equiv> 0x62D"
abbreviation KHAH :: nat where "KHAH \<equiv> 0x62E"
abbreviation DAL :: nat where "DAL \<equiv> 0x62F"
abbreviation REH :: nat where "REH \<equiv> 0x631"
abbreviation SEEN :: nat where "SEEN \<equiv> 0x633"
abbreviation SHEEN :: nat where "SHEEN \<equiv> 0x634"
abbreviation SAD :: nat where "SAD \<equiv> 0x635"
abbreviation AIN :: nat where "AIN \<equiv> 0x639"
abbreviation FEH :: nat where "FEH \<equiv> 0x641"
abbreviation LAM :: nat where "LAM \<equiv> 0x644"
abbreviation MEEM :: nat where "MEEM \<equiv> 0x645"
abbreviation NOON :: nat where "NOON \<equiv> 0x646"
abbreviation WAW :: nat where "WAW \<equiv> 0x648"
abbreviation YEH :: nat where "YEH \<equiv> 0x64A"

section \<open>Digit maps\<close>

definition ARABIC_INDIC_DIGITS :: ustring where
  "ARABIC_INDIC_DIGITS = [0x660, 0x661, 0x662, 0x663, 0x664, 0x665, 0x666, 0x667, 0x668, 0x669]"

definition EASTERN_ARABIC_DIGITS :: ustring where
  "EASTERN_ARABIC_DIGITS = [0x6F0, 0x6F1, 0x6F2, 0x6F3, 0x6F4, 0x6F5, 0x6F6, 0x6F7, 0x6F8, 0x6F9]"

definition WESTERN_DIGITS :: ustring where
  "WESTERN_DIGITS = [0x30, 0x31, 0x32, 0x33, 0x34, 0x35, 0x36, 0x37, 0x38, 0x39]"

text \<open>
  \<^verbatim>\<open>str.maketrans(x, y)\<close> builds the dictionary that sends the i-th code point of \<^verbatim>\<open>x\<close> to
  the i-th code point of \<^verbatim>\<open>y\<close>; a later pair would overwrite an earlier one with the
  same key, hence the reversal before \<open>map_of\<close>, which returns the first match.
\<close>

definition maketrans :: "ustring \<Rightarrow> ustring \<Rightarrow> (nat \<rightharpoonup> nat)" where
  "maketrans x y = map_of (rev (zip x y))"

definition AR_TO_WEST :: "nat \<rightharpoonup> nat" where
  "AR_TO_WEST = maketrans ARABIC_INDIC_DIGITS WESTERN_DIGITS"

definition WEST_TO_AR :: "nat \<rightharpoonup> nat" where
  "WEST_TO_AR = maketrans WESTERN_DIGITS ARABIC_INDIC_DIGITS"

definition EAST_TO_WEST :: "nat \<rightharpoonup> nat" where
  "EAST_TO_WEST = maketrans EASTERN_ARABIC_DIGITS WESTERN_DIGITS"

definition WEST_TO_EAST :: "nat \<rightharpoonup> nat" where
  "WEST_TO_EAST = maketrans WESTERN_DIGITS EASTERN_ARABIC_DIGITS"

definition AR_TO_EAST :: "nat \<rightharpoonup> nat" where
  "AR_TO_EAST = maketrans ARABIC_INDIC_DIGITS EASTERN_ARABIC_DIGITS"

definition EAST_TO_AR :: "nat \<rightharpoonup> nat" where
  "EAST_TO_AR = maketrans EASTERN_ARABIC_DIGITS ARABIC_INDIC_DIGITS"

text \<open>
  \<^verbatim>\<open>text.translate(table)\<close> with a table of code points: every code point that is a key
  is replaced by its value, every other one is kept.
\<close>

definition translate_char :: "(nat \<rightharpoonup> nat) \<Rightarrow> nat \<Rightarrow> nat" where
  "translate_char table c = (case table c of None \<Rightarrow> c | Some c' \<Rightarrow> c')"

definition translate :: "(nat \<rightharpoonup> nat) \<Rightarrow> ustring \<Rightarrow> ustring" where
  "translate table text = map (translate_char table) text"

definition to_western_numerals :: "ustring \<Rightarrow> ustring" where
  "to_western_numerals text = translate EAST_TO_WEST (translate AR_TO_WEST text)"

definition to_arabic_numerals :: "ustring \<Rightarrow> ustring" where
  "to_arabic_numerals text = translate EAST_TO_AR (translate WEST_TO_AR text)"

definition to_eastern_numerals :: "ustring \<Rightarrow> ustring" where
  "to_eastern_numerals text = translate AR_TO_EAST (translate WEST_TO_EAST text)"

text \<open>
  The three numeral systems, the digits of each and the function that targets each; they
  name "the transcoder targeting a system" in the statements below.
\<close>

datatype digit_system = Western | ArabicIndic | EasternArabic

fun digits_of :: "digit_system \<Rightarrow> ustring" where
  "digits_of Western = WESTERN_DIGITS"
| "digits_of ArabicIndic = ARABIC_INDIC_DIGITS"
| "digits_of EasternArabic = EASTERN_ARABIC_DIGITS"

fun transcoder :: "digit_system \<Rightarrow> ustring \<Rightarrow> ustring" where
  "transcoder Western = to_western_numerals"
| "transcoder ArabicIndic = to_arabic_numerals"
| "transcoder EasternArabic = to_eastern_numerals"

definition any_digit :: "nat \<Rightarrow> bool" where
  "any_digit c \<longleftrightarrow> c \<in> set WESTERN_DIGITS \<or> c \<in> set ARABIC_INDIC_DIGITS \<or> c \<in> set EASTERN_ARABIC_DIGITS"

section \<open>Extraction of numbers\<close>

text \<open>
  \<^verbatim>\<open>WESTERN_DIGIT_PATTERN = re.compile(r'[0-9]+')\<close>: the class holds the ten code points
  from \<^verbatim>\<open>0\<close> to \<^verbatim>\<open>9\<close> only, and \<^verbatim>\<open>findall\<close> returns the maximal runs, left to right.
  \<open>digit_runs cur rest\<close> scans \<open>rest\<close> with the run read so far in \<open>cur\<close>.
\<close>

definition is_western_digit :: "nat \<Rightarrow> bool" where
  "is_western_digit c \<longleftrightarrow> 0x30 \<le> c \<and> c \<le> 0x39"

fun digit_runs :: "ustring \<Rightarrow> ustring \<Rightarrow> ustring list" where
  "digit_runs cur [] = (if cur = [] then [] else [cur])"
| "digit_runs cur (c # cs) =
     (if is_western_digit c then digit_runs (cur @ [c]) cs
      else (if cur = [] then [] else [cur]) @ digit_runs [] cs)"

definition findall_western :: "ustring \<Rightarrow> ustring list" where
  "findall_western text = digit_runs [] text"

text \<open>
  \<^verbatim>\<open>int(m)\<close> on a run of Western digits: the base-10 value, of unbounded size (the cap
  that recent interpreters put on the length of a decimal string is not modelled).
\<close>

definition int_of_digits :: "ustring \<Rightarrow> int" where
  "int_of_digits m = foldl (\<lambda>acc c. 10 * acc + (int c - 0x30)) 0 m"

definition extract_numbers :: "ustring \<Rightarrow> int list" where
  "extract_numbers text =
     (let converted = to_western_numerals text
      in map int_of_digits (findall_western converted))"

section \<open>Numbers to Arabic words\<close>

text \<open>
  Reading a list at an index raises \<^verbatim>\<open>IndexError\<close> out of range, and a negative index
  counts from the end. No other exception can arise in the functions modelled here.
\<close>

datatype py_error = IndexError

definition py_index :: "'a list \<Rightarrow> int \<Rightarrow> py_error + 'a" where
  "py_index xs i =
     (let len = int (length xs); j = (if i < 0 then len + i else i)
      in if 0 \<le> j \<and> j < len then Inr (xs ! nat j) else Inl IndexError)"

text \<open>Sequencing of steps that may raise: the first error ends the computation.\<close>

definition ebind :: "py_error + 'a \<Rightarrow> ('a \<Rightarrow> py_error + 'b) \<Rightarrow> py_error + 'b" where
  "ebind m f = (case m of Inl e \<Rightarrow> Inl e | Inr x \<Rightarrow> f x)"

definition ONES :: "ustring list" where
  "ONES = [[],
     [WAW, ALEF, HAH, DAL],
     [ALEF, THEH, NOON, ALEF, NOON],
     [THEH, LAM, ALEF, THEH, TEH_MARBUTA],
     [ALEF_HAMZA, REH, BEH, AIN, TEH_MARBUTA],
     [KHAH, MEEM, SEEN, TEH_MARBUTA],
     [SEEN, TEH, TEH_MARBUTA],
     [SEEN, BEH, AIN, TEH_MARBUTA],
     [THEH, MEEM, ALEF, NOON, YEH, TEH_MARBUTA],
     [TEH, SEEN, AIN, TEH_MARBUTA]]"

definition TEENS :: "ustring list" where
  "TEENS = [[AIN, SHEEN, REH, TEH_MARBUTA],
     [ALEF_HAMZA, HAH, DAL, SPACE, AIN, SHEEN, REH],
     [ALEF, THEH, NOON, ALEF, SPACE, AIN, SHEEN, REH],
     [THEH, LAM, ALEF, THEH, TEH_MARBUTA, SPACE, AIN, SHEEN, REH],
     [ALEF_HAMZA, REH, BEH, AIN, TEH_MARBUTA, SPACE, AIN, SHEEN, REH],
     [KHAH, MEEM, SEEN, TEH_MARBUTA, SPACE, AIN, SHEEN, REH],
     [SEEN, TEH, TEH_MARBUTA, SPACE, AIN, SHEEN, REH],
     [SEEN, BEH, AIN, TEH_MARBUTA, SPACE, AIN, SHEEN, REH],
     [THEH, MEEM, ALEF, NOON, YEH, TEH_MARBUTA, SPACE, AIN, SHEEN, REH],
     [TEH, SEEN, AIN, TEH_MARBUTA, SPACE, AIN, SHEEN, REH]]"

definition TENS :: "ustring list" where
  "TENS = [[], [],
     [AIN, SHEEN, REH, WAW, NOON],
     [THEH, LAM, ALEF, THEH, WAW, NOON],
     [ALEF_HAMZA, REH, BEH, AIN, WAW, NOON],
     [KHAH, MEEM, SEEN, WAW, NOON],
     [SEEN, TEH, WAW, NOON],
     [SEEN, BEH, AIN, WAW, NOON],
     [THEH, MEEM, ALEF, NOON, WAW, NOON],
     [TEH, SEEN, AIN, WAW, NOON]]"

definition HUNDREDS :: "ustring list" where
  "HUNDREDS = [[],
     [MEEM, YEH_HAMZA, TEH_MARBUTA],
     [MEEM, YEH_HAMZA, TEH, ALEF, NOON],
     [THEH, LAM, ALEF, THEH, MEEM, YEH_HAMZA, TEH_MARBUTA],
     [ALEF_HAMZA, REH, BEH, AIN, MEEM, YEH_HAMZA, TEH_MARBUTA],
     [KHAH, MEEM, SEEN, MEEM, YEH_HAMZA, TEH_MARBUTA],
     [SEEN, TEH, MEEM, YEH_HAMZA, TEH_MARBUTA],
     [SEEN, BEH, AIN, MEEM, YEH_HAMZA, TEH_MARBUTA],
     [THEH, MEEM, ALEF, NOON, MEEM, YEH_HAMZA, TEH_MARBUTA],
     [TEH, SEEN, AIN, MEEM, YEH_HAMZA, TEH_MARBUTA]]"

text \<open>The scale table: a singular and a plural form for each of the five tiers.\<close>

definition SCALE :: "(ustring \<times> ustring) list" where
  "SCALE = [([], []),
     ([ALEF_HAMZA, LAM, FEH], [ALEF_MADDA, LAM, ALEF, FEH]),
     ([MEEM, LAM, YEH, WAW, NOON], [MEEM, LAM, ALEF, YEH, YEH, NOON]),
     ([MEEM, LAM, YEH, ALEF, REH], [MEEM, LAM, YEH, ALEF, REH, ALEF, TEH]),
     ([TEH, REH, YEH, LAM, YEH, WAW, NOON], [TEH, REH, YEH, LAM, YEH, WAW, NOON, ALEF, TEH])]"

text \<open>The literals of the two conversion functions.\<close>

definition ZERO_WORD :: ustring where
  "ZERO_WORD = [SAD, FEH, REH]"

definition NEGATIVE_PREFIX :: ustring where
  "NEGATIVE_PREFIX = [SEEN, ALEF, LAM, BEH, SPACE]"

definition CONJ_SEP :: ustring where
  "CONJ_SEP = [SPACE, WAW]"

definition DUAL_ENDING :: ustring where
  "DUAL_ENDING = [ALEF, NOON]"

text \<open>\<^verbatim>\<open>sep.join(parts)\<close>.\<close>

fun join_str :: "ustring \<Rightarrow> ustring list \<Rightarrow> ustring" where
  "join_str sep [] = []"
| "join_str sep [p] = p"
| "join_str sep (p # q # ps) = p @ sep @ join_str sep (q # ps)"

text \<open>
  \<^verbatim>\<open>s.endswith(suffix)\<close>, and \<^verbatim>\<open>s.rstrip(chars)\<close>, which removes every trailing code point
  that occurs in \<^verbatim>\<open>chars\<close>.
\<close>

definition endswith :: "ustring \<Rightarrow> ustring \<Rightarrow> bool" where
  "endswith s suf \<longleftrightarrow> suffix suf s"

definition rstrip_chars :: "ustring \<Rightarrow> ustring \<Rightarrow> ustring" where
  "rstrip_chars s chars = rev (dropWhile (\<lambda>c. c \<in> set chars) (rev s))"

text \<open>
  \<^verbatim>\<open>_number_under_1000(n)\<close>. The list \<^verbatim>\<open>parts\<close> is threaded through the three appends; the
  reads of the four tables are the only steps that can raise.
\<close>

definition number_under_1000 :: "int \<Rightarrow> py_error + ustring" where
  "number_under_1000 n =
     (if n = 0 then Inr []
      else
        let hundreds = n div 100; remainder = n mod 100 in
        ebind (if hundreds \<noteq> 0
               then ebind (py_index HUNDREDS hundreds) (\<lambda>w. Inr [w])
               else Inr [])
          (\<lambda>parts.
             ebind (if remainder \<ge> 10 \<and> remainder \<le> 19
                    then ebind (py_index TEENS (remainder - 10)) (\<lambda>w. Inr (parts @ [w]))
                    else
                      let tens = remainder div 10; ones = remainder mod 10 in
                      ebind (if ones \<noteq> 0
                             then ebind (py_index ONES ones) (\<lambda>w. Inr (parts @ [w]))
                             else Inr parts)
                        (\<lambda>parts.
                           if tens \<noteq> 0
                           then ebind (py_index TENS tens) (\<lambda>w. Inr (parts @ [w]))
                           else Inr parts))
               (\<lambda>parts. Inr (join_str CONJ_SEP parts))))"

text \<open>
  The words of one nonzero group inside the loop of \<^verbatim>\<open>number_to_words\<close>: the value of
  \<^verbatim>\<open>group_words\<close> that the loop appends to \<^verbatim>\<open>groups\<close>, from the position \<^verbatim>\<open>scale_idx\<close>
  and the value \<^verbatim>\<open>group\<close> (written \<open>grp\<close>).
\<close>

definition loop_group_words :: "int \<Rightarrow> int \<Rightarrow> py_error + ustring" where
  "loop_group_words scale_idx grp =
     ebind (number_under_1000 grp)
       (\<lambda>group_words.
          if scale_idx > 0 then
            ebind (py_index SCALE scale_idx)
              (\<lambda>(singular, plural).
                 if grp = 1 then Inr singular
                 else if grp = 2 then
                   Inr (if endswith singular [TEH_MARBUTA]
                        then rstrip_chars singular [TEH_MARBUTA] @ DUAL_ENDING
                        else singular @ DUAL_ENDING)
                 else if grp \<ge> 3 \<and> grp \<le> 10 then Inr (group_words @ [SPACE] @ plural)
                 else Inr (group_words @ [SPACE] @ singular))
          else Inr group_words)"

text \<open>The \<^verbatim>\<open>while remaining > 0\<close> loop, with its three variables as arguments.\<close>

function number_loop :: "int \<Rightarrow> int \<Rightarrow> ustring list \<Rightarrow> py_error + ustring list" where
  "number_loop remaining scale_idx groups =
     (if remaining > 0 then
        (if remaining mod 1000 \<noteq> 0 then
           (case loop_group_words scale_idx (remaining mod 1000) of
              Inl e \<Rightarrow> Inl e
            | Inr group_words \<Rightarrow>
                number_loop (remaining div 1000) (scale_idx + 1) (groups @ [group_words]))
         else number_loop (remaining div 1000) (scale_idx + 1) groups)
      else Inr groups)"
  by pat_completeness auto
termination
  by (relation "measure (\<lambda>(remaining, scale_idx, groups). nat remaining)") auto

function number_to_words :: "int \<Rightarrow> py_error + ustring" where
  "number_to_words n =
     (if n = 0 then Inr ZERO_WORD
      else if n < 0 then
        (case number_to_words (- n) of
           Inl e \<Rightarrow> Inl e
         | Inr w \<Rightarrow> Inr (NEGATIVE_PREFIX @ w))
      else
        (case number_loop n 0 [] of
           Inl e \<Rightarrow> Inl e
         | Inr groups \<Rightarrow> Inr (join_str CONJ_SEP (rev groups))))"
  by pat_completeness auto
termination
  by (relation "measure (\<lambda>n. if n < 0 then 1 else 0)") auto

section \<open>Arabic words to numbers\<close>

text \<open>
  \<^verbatim>\<open>s.strip()\<close> removes leading and trailing white space, that is the code points for
  which \<^verbatim>\<open>str.isspace\<close> holds.
\<close>

definition is_space :: "nat \<Rightarrow> bool" where
  "is_space c \<longleftrightarrow>
     (0x09 \<le> c \<and> c \<le> 0x0D) \<or> (0x1C \<le> c \<and> c \<le> 0x20) \<or> c = 0x85 \<or> c = 0xA0 \<or>
     c = 0x1680 \<or> (0x2000 \<le> c \<and> c \<le> 0x200A) \<or> c = 0x2028 \<or> c = 0x2029 \<or>
     c = 0x202F \<or> c = 0x205F \<or> c = 0x3000"

definition strip :: "ustring \<Rightarrow> ustring" where
  "strip s = rev (dropWhile is_space (rev (dropWhile is_space s)))"

text \<open>
  \<^verbatim>\<open>s.replace(old, new)\<close>: the occurrences of \<^verbatim>\<open>old\<close> are replaced from left to right
  without overlap; an empty \<^verbatim>\<open>old\<close> matches before every code point and at the end.
\<close>

fun replace_scan :: "ustring \<Rightarrow> ustring \<Rightarrow> ustring \<Rightarrow> ustring" where
  "replace_scan old new [] = []"
| "replace_scan old new (c # cs) =
     (if prefix old (c # cs)
      then new @ replace_scan old new (drop (length old - 1) cs)
      else c # replace_scan old new cs)"

definition replace_str :: "ustring \<Rightarrow> ustring \<Rightarrow> ustring \<Rightarrow> ustring" where
  "replace_str s old new =
     (if old = [] then new @ concat (map (\<lambda>c. c # new) s) else replace_scan old new s)"

text \<open>
  \<^verbatim>\<open>s.split(sep)\<close> for a separator of one code point: every occurrence of the separator
  ends a part, so a text with k occurrences gives k + 1 parts, empty ones included.
  \<open>split_scan sep cur rest\<close> scans \<open>rest\<close> with the part read so far in \<open>cur\<close>.
\<close>

fun split_scan :: "nat \<Rightarrow> ustring \<Rightarrow> ustring \<Rightarrow> ustring list" where
  "split_scan sep cur [] = [cur]"
| "split_scan sep cur (c # cs) =
     (if c = sep then cur # split_scan sep [] cs else split_scan sep (cur @ [c]) cs)"

definition split_str :: "ustring \<Rightarrow> nat \<Rightarrow> ustring list" where
  "split_str s sep = split_scan sep [] s"

text \<open>
  The reverse lookup table of \<^verbatim>\<open>words_to_number\<close>. \<open>word_entries\<close> lists the assignments
  \<^verbatim>\<open>word_map[w] = v\<close> in the order in which the four loops and the four fixed lines make
  them; a later assignment to the same key replaces an earlier one, hence the reversal
  before \<open>map_of\<close>.
\<close>

definition word_entries :: "(ustring \<times> int) list" where
  "word_entries =
     [(w, int i). (i, w) \<leftarrow> enumerate 0 ONES, w \<noteq> []] @
     [(w, int i + 10). (i, w) \<leftarrow> enumerate 0 TEENS] @
     [(w, int i * 10). (i, w) \<leftarrow> enumerate 0 TENS, w \<noteq> []] @
     [(w, int i * 100). (i, w) \<leftarrow> enumerate 0 HUNDREDS, w \<noteq> []] @
     [([ALEF_HAMZA, LAM, FEH], 1000),
      ([ALEF_HAMZA, LAM, FEH, ALEF, NOON], 2000),
      ([MEEM, LAM, YEH, WAW, NOON], 1000000),
      ([MEEM, LAM, YEH, ALEF, REH], 1000000000)]"

definition word_map :: "ustring \<rightharpoonup> int" where
  "word_map = map_of (rev word_entries)"

text \<open>
  The loop over the parts, with the running \<^verbatim>\<open>total\<close> in \<open>tot\<close>: a part that is a key
  adds its value, any other adds nothing.
\<close>

fun sum_parts :: "ustring list \<Rightarrow> int \<Rightarrow> int" where
  "sum_parts [] tot = tot"
| "sum_parts (part # parts) tot =
     (let part = strip part
      in case word_map part of
           Some v \<Rightarrow> sum_parts parts (tot + v)
         | None \<Rightarrow> sum_parts parts tot)"

text \<open>
  \<^verbatim>\<open>words_to_number(text)\<close>. Both arguments of the \<^verbatim>\<open>replace\<close> call are the same two code
  points, a space and the letter waw, and the text is then split at every letter waw.
\<close>

definition words_to_number :: "ustring \<Rightarrow> int" where
  "words_to_number text =
     (let text = strip text in
      if text = ZERO_WORD then 0
      else
        let parts = map strip (split_str (replace_str text [SPACE, WAW] [SPACE, WAW]) WAW)
        in sum_parts parts 0)"

section \<open>The tier-agreement rule as the specification words it\<close>

text \<open>
  These two definitions follow the specification, not the source. The dual of a singular
  form: a final feminine marker (teh marbuta) is removed, then the dual ending is appended.
  The words of a group of value \<open>g\<close> at a tier above the units: the singular alone for 1,
  the dual for 2, the group's own words and the plural for 3 to 10, the group's own words
  and the singular otherwise.
\<close>

definition spec_dual :: "ustring \<Rightarrow> ustring" where
  "spec_dual singular =
     (if singular \<noteq> [] \<and> last singular = TEH_MARBUTA
      then butlast singular @ DUAL_ENDING
      else singular @ DUAL_ENDING)"

definition spec_tier_words :: "ustring \<Rightarrow> ustring \<Rightarrow> ustring \<Rightarrow> int \<Rightarrow> ustring" where
  "spec_tier_words singular plural under_1000 g =
     (if g = 1 then singular
      else if g = 2 then spec_dual singular
      else if 3 \<le> g \<and> g \<le> 10 then under_1000 @ [SPACE] @ plural
      else under_1000 @ [SPACE] @ singular)"

section \<open>Properties of the digit transcoders\<close>

lemma western_digit_iff: "c \<in> set WESTERN_DIGITS \<longleftrightarrow> 0x30 \<le> c \<and> c \<le> 0x39"
  unfolding WESTERN_DIGITS_def by (simp; arith)

lemma arabic_digit_iff: "c \<in> set ARABIC_INDIC_DIGITS \<longleftrightarrow> 0x660 \<le> c \<and> c \<le> 0x669"
  unfolding ARABIC_INDIC_DIGITS_def by (simp; arith)

lemma eastern_digit_iff: "c \<in> set EASTERN_ARABIC_DIGITS \<longleftrightarrow> 0x6F0 \<le> c \<and> c \<le> 0x6F9"
  unfolding EASTERN_ARABIC_DIGITS_def by (simp; arith)

lemma tr_AR_TO_WEST:
  "translate_char AR_TO_WEST c = (if 0x660 \<le> c \<and> c \<le> 0x669 then c - 0x630 else c)"
  unfolding translate_char_def AR_TO_WEST_def maketrans_def ARABIC_INDIC_DIGITS_def WESTERN_DIGITS_def
  by (simp; arith)

lemma tr_EAST_TO_WEST:
  "translate_char EAST_TO_WEST c = (if 0x6F0 \<le> c \<and> c \<le> 0x6F9 then c - 0x6C0 else c)"
  unfolding translate_char_def EAST_TO_WEST_def maketrans_def EASTERN_ARABIC_DIGITS_def WESTERN_DIGITS_def
  by (simp; arith)

lemma tr_WEST_TO_AR:
  "translate_char WEST_TO_AR c = (if 0x30 \<le> c \<and> c \<le> 0x39 then c + 0x630 else c)"
  unfolding translate_char_def WEST_TO_AR_def maketrans_def ARABIC_INDIC_DIGITS_def WESTERN_DIGITS_def
  by (simp; arith)

lemma tr_EAST_TO_AR:
  "translate_char EAST_TO_AR c = (if 0x6F0 \<le> c \<and> c \<le> 0x6F9 then c - 0x90 else c)"
  unfolding translate_char_def EAST_TO_AR_def maketrans_def EASTERN_ARABIC_DIGITS_def ARABIC_INDIC_DIGITS_def
  by (simp; arith)

lemma tr_WEST_TO_EAST:
  "translate_char WEST_TO_EAST c = (if 0x30 \<le> c \<and> c \<le> 0x39 then c + 0x6C0 else c)"
  unfolding translate_char_def WEST_TO_EAST_def maketrans_def EASTERN_ARABIC_DIGITS_def WESTERN_DIGITS_def
  by (simp; arith)

lemma tr_AR_TO_EAST:
  "translate_char AR_TO_EAST c = (if 0x660 \<le> c \<and> c \<le> 0x669 then c + 0x90 else c)"
  unfolding translate_char_def AR_TO_EAST_def maketrans_def EASTERN_ARABIC_DIGITS_def ARABIC_INDIC_DIGITS_def
  by (simp; arith)

lemmas tr_simps = tr_AR_TO_WEST tr_EAST_TO_WEST tr_WEST_TO_AR tr_EAST_TO_AR tr_WEST_TO_EAST tr_AR_TO_EAST


lemma translate_nth: "i < length t \<Longrightarrow> translate table t ! i = translate_char table (t ! i)"
  by (simp add: translate_def)

lemma translate_length: "length (translate table t) = length t"
  by (simp add: translate_def)

lemma to_western_map:
  "to_western_numerals t = map (\<lambda>c. translate_char EAST_TO_WEST (translate_char AR_TO_WEST c)) t"
  by (simp add: to_western_numerals_def translate_def)

lemma to_arabic_map:
  "to_arabic_numerals t = map (\<lambda>c. translate_char EAST_TO_AR (translate_char WEST_TO_AR c)) t"
  by (simp add: to_arabic_numerals_def translate_def)

lemma to_eastern_map:
  "to_eastern_numerals t = map (\<lambda>c. translate_char AR_TO_EAST (translate_char WEST_TO_EAST c)) t"
  by (simp add: to_eastern_numerals_def translate_def)

lemmas to_maps = to_western_map to_arabic_map to_eastern_map


lemma western_char_idem:
  "translate_char EAST_TO_WEST (translate_char AR_TO_WEST
     (translate_char EAST_TO_WEST (translate_char AR_TO_WEST c))) =
   translate_char EAST_TO_WEST (translate_char AR_TO_WEST c)"
  by (auto simp: tr_simps)

lemma arabic_char_idem:
  "translate_char EAST_TO_AR (translate_char WEST_TO_AR
     (translate_char EAST_TO_AR (translate_char WEST_TO_AR c))) =
   translate_char EAST_TO_AR (translate_char WEST_TO_AR c)"
  by (auto simp: tr_simps)

lemma eastern_char_idem:
  "translate_char AR_TO_EAST (translate_char WEST_TO_EAST
     (translate_char AR_TO_EAST (translate_char WEST_TO_EAST c))) =
   translate_char AR_TO_EAST (translate_char WEST_TO_EAST c)"
  by (auto simp: tr_simps)

lemma western_char_after_arabic:
  "translate_char EAST_TO_WEST (translate_char AR_TO_WEST
     (translate_char EAST_TO_AR (translate_char WEST_TO_AR c))) =
   translate_char EAST_TO_WEST (translate_char AR_TO_WEST c)"
  by (auto simp: tr_simps)

lemma western_char_after_eastern:
  "translate_char EAST_TO_WEST (translate_char AR_TO_WEST
     (translate_char AR_TO_EAST (translate_char WEST_TO_EAST c))) =
   translate_char EAST_TO_WEST (translate_char AR_TO_WEST c)"
  by (auto simp: tr_simps)

lemma western_after_transcoder: "to_western_numerals (transcoder S t) = to_western_numerals t"
  by (cases S)
    (simp_all add: to_maps western_char_idem western_char_after_arabic western_char_after_eastern)

lemma roundtrip_western_digit:
  assumes "0x30 \<le> d \<and> d \<le> 0x39"
  shows "to_western_numerals (transcoder B [d]) = [d]"
  using assms by (cases B) (auto simp: to_maps tr_simps)

lemma roundtrip_arabic_digit:
  assumes "0x660 \<le> d \<and> d \<le> 0x669"
  shows "to_arabic_numerals (transcoder B [d]) = [d]"
  using assms by (cases B) (auto simp: to_maps tr_simps)

lemma roundtrip_eastern_digit:
  assumes "0x6F0 \<le> d \<and> d \<le> 0x6F9"
  shows "to_eastern_numerals (transcoder B [d]) = [d]"
  using assms by (cases B) (auto simp: to_maps tr_simps)

lemma nondigit_char_fixed:
  assumes "\<not> any_digit c"
  shows "translate_char EAST_TO_WEST (translate_char AR_TO_WEST c) = c"
    and "translate_char EAST_TO_AR (translate_char WEST_TO_AR c) = c"
    and "translate_char AR_TO_EAST (translate_char WEST_TO_EAST c) = c"
  using assms
  by (auto simp: any_digit_def western_digit_iff arabic_digit_iff eastern_digit_iff tr_simps)

text \<open>
  Claim C6. For two distinct numeral systems A and B and a digit character \<open>d\<close> of A,
  transcoding \<open>d\<close> to B and then back to A returns \<open>d\<close>. Each of the three transcoders keeps
  the length of a text, and keeps at its position every character that is a digit of none
  of the three systems.
\<close>

theorem transcoding_roundtrip_and_nondigits:
  "(A \<noteq> B \<longrightarrow> d \<in> set (digits_of A) \<longrightarrow> transcoder A (transcoder B [d]) = [d]) \<and>
   length (transcoder S t) = length t \<and>
   (\<forall>i < length t. \<not> any_digit (t ! i) \<longrightarrow> transcoder S t ! i = t ! i)"
proof (intro conjI impI allI)
  assume "A \<noteq> B" and d: "d \<in> set (digits_of A)"
  show "transcoder A (transcoder B [d]) = [d]"
  proof (cases A)
    case Western
    with d show ?thesis by (simp add: western_digit_iff roundtrip_western_digit)
  next
    case ArabicIndic
    with d show ?thesis by (simp add: arabic_digit_iff roundtrip_arabic_digit)
  next
    case EasternArabic
    with d show ?thesis by (simp add: eastern_digit_iff roundtrip_eastern_digit)
  qed
next
  show "length (transcoder S t) = length t"
    by (cases S) (simp_all add: to_maps)
next
  fix i assume "i < length t" and "\<not> any_digit (t ! i)"
  then show "transcoder S t ! i = t ! i"
    by (cases S) (simp_all add: to_maps nondigit_char_fixed)
qed

theorem transcoding_roundtrip_and_nondigits_witness:
  "Western \<noteq> ArabicIndic \<and> (0x35::nat) \<in> set (digits_of Western) \<and>
   transcoder Western (transcoder ArabicIndic [0x35]) = [0x35] \<and>
   (1::nat) < length [0x35, 0x41, 0x669::nat] \<and> \<not> any_digit ([0x35, 0x41, 0x669] ! 1) \<and>
   transcoder EasternArabic [0x35, 0x41, 0x669] ! 1 = [0x35, 0x41, 0x669] ! 1"
  using transcoding_roundtrip_and_nondigits [of Western ArabicIndic "0x35" EasternArabic "[0x35, 0x41, 0x669]"]
  by (simp add: any_digit_def WESTERN_DIGITS_def ARABIC_INDIC_DIGITS_def EASTERN_ARABIC_DIGITS_def)

text \<open>
  Claim C7. The three transcoders are functions from texts to texts with no failing step
  (a translation is a map over the code points), and each is idempotent: applying it
  twice gives what applying it once gives.
\<close>

theorem transcoders_idempotent:
  "to_western_numerals (to_western_numerals t) = to_western_numerals t \<and>
   to_arabic_numerals (to_arabic_numerals t) = to_arabic_numerals t \<and>
   to_eastern_numerals (to_eastern_numerals t) = to_eastern_numerals t"
  by (simp add: to_maps western_char_idem arabic_char_idem eastern_char_idem)

text \<open>
  Claim C8. Extraction does not depend on the digit system: transcoding a text with any
  of the three transcoders first leaves the extracted list of integers unchanged.
\<close>

theorem extract_numbers_system_invariant:
  "extract_numbers (to_western_numerals t) = extract_numbers t \<and>
   extract_numbers (to_arabic_numerals t) = extract_numbers t \<and>
   extract_numbers (to_eastern_numerals t) = extract_numbers t"
  using western_after_transcoder [of Western t] western_after_transcoder [of ArabicIndic t]
    western_after_transcoder [of EasternArabic t]
  by (simp add: extract_numbers_def)

section \<open>Properties of the word encoder\<close>

declare number_loop.simps [simp del] number_to_words.simps [simp del]

lemmas table_defs = ONES_def TEENS_def TENS_def HUNDREDS_def SCALE_def
lemmas literal_defs = ZERO_WORD_def NEGATIVE_PREFIX_def CONJ_SEP_def DUAL_ENDING_def
lemmas encoder_defs = number_to_words.simps number_loop.simps loop_group_words_def
  number_under_1000_def py_index_def ebind_def endswith_def rstrip_chars_def

lemma py_index_in_range: "0 \<le> i \<Longrightarrow> i < int (length xs) \<Longrightarrow> py_index xs i = Inr (xs ! nat i)"
  by (simp add: py_index_def)

lemma py_index_past_end: "int (length xs) \<le> i \<Longrightarrow> py_index xs i = Inl IndexError"
  by (simp add: py_index_def)

lemma table_lengths:
  "length ONES = 10" "length TEENS = 10" "length TENS = 10" "length HUNDREDS = 10" "length SCALE = 5"
  by (simp_all add: table_defs)


lemma number_under_1000_returns:
  assumes "0 \<le> g" and "g \<le> 999"
  shows "\<exists>w. number_under_1000 g = Inr w"
proof -
  define h where "h = g div 100"
  define r where "r = g mod 100"
  have h: "0 \<le> h \<and> h < 10" using assms unfolding h_def by presburger
  have r: "0 \<le> r \<and> r < 100" unfolding r_def by simp
  have t: "0 \<le> r div 10 \<and> r div 10 < 10" using r by presburger
  have o: "0 \<le> r mod 10 \<and> r mod 10 < 10" by simp
  have H: "py_index HUNDREDS h = Inr (HUNDREDS ! nat h)"
    using h by (simp add: py_index_in_range table_lengths)
  have T: "py_index TENS (r div 10) = Inr (TENS ! nat (r div 10))"
    using t by (simp add: py_index_in_range table_lengths)
  have O: "py_index ONES (r mod 10) = Inr (ONES ! nat (r mod 10))"
    using o by (simp add: py_index_in_range table_lengths)
  have E: "10 \<le> r \<and> r \<le> 19 \<Longrightarrow> py_index TEENS (r - 10) = Inr (TEENS ! nat (r - 10))"
    by (simp add: py_index_in_range table_lengths)
  have "number_under_1000 g =
     (if g = 0 then Inr []
      else
        ebind (if h \<noteq> 0
               then ebind (py_index HUNDREDS h) (\<lambda>w. Inr [w])
               else Inr [])
          (\<lambda>parts.
             ebind (if r \<ge> 10 \<and> r \<le> 19
                    then ebind (py_index TEENS (r - 10)) (\<lambda>w. Inr (parts @ [w]))
                    else
                      ebind (if r mod 10 \<noteq> 0
                             then ebind (py_index ONES (r mod 10)) (\<lambda>w. Inr (parts @ [w]))
                             else Inr parts)
                        (\<lambda>parts.
                           if r div 10 \<noteq> 0
                           then ebind (py_index TENS (r div 10)) (\<lambda>w. Inr (parts @ [w]))
                           else Inr parts))
               (\<lambda>parts. Inr (join_str CONJ_SEP parts))))"
    unfolding number_under_1000_def Let_def h_def r_def by (rule refl)
  also have "\<exists>w. \<dots> = Inr w"
    unfolding H T O by (simp add: ebind_def E)
  finally show ?thesis .
qed

lemma loop_group_words_units:
  assumes "0 \<le> g" and "g \<le> 999"
  shows "loop_group_words 0 g = number_under_1000 g"
  by (simp add: loop_group_words_def ebind_def split: sum.splits)

lemma loop_group_words_tier:
  assumes "1 \<le> t" and "t < length SCALE" and "number_under_1000 g = Inr w"
  shows "loop_group_words (int t) g =
         Inr (spec_tier_words (fst (SCALE ! t)) (snd (SCALE ! t)) w g)"
proof -
  from assms(1,2) have "t = 1 \<or> t = 2 \<or> t = 3 \<or> t = 4"
    by (simp add: table_lengths) arith
  then show ?thesis
    using assms(3)
    by (elim disjE)
      (simp_all add: loop_group_words_def ebind_def py_index_def SCALE_def spec_tier_words_def
        spec_dual_def endswith_def suffix_Cons)
qed

lemma loop_group_words_beyond:
  assumes "int (length SCALE) \<le> idx" and "number_under_1000 g = Inr w"
  shows "loop_group_words idx g = Inl IndexError"
  using assms by (simp add: loop_group_words_def ebind_def py_index_past_end table_lengths)

lemma loop_group_words_returns:
  assumes "0 \<le> idx" and "idx < int (length SCALE)" and "1 \<le> g" and "g \<le> 999"
  shows "\<exists>w. loop_group_words idx g = Inr w"
proof -
  from assms(3,4) obtain w where w: "number_under_1000 g = Inr w"
    using number_under_1000_returns [of g] by auto
  show ?thesis
  proof (cases "idx = 0")
    case True
    with w assms show ?thesis by (simp add: loop_group_words_units)
  next
    case False
    with assms(1,2) have "1 \<le> nat idx" "nat idx < length SCALE" by simp_all
    from loop_group_words_tier [OF this w] assms(1) show ?thesis by simp
  qed
qed

lemma number_loop_stop: "remaining \<le> 0 \<Longrightarrow> number_loop remaining idx gs = Inr gs"
  by (simp add: number_loop.simps)

lemma number_loop_step_zero:
  "0 < remaining \<Longrightarrow> remaining mod 1000 = 0 \<Longrightarrow>
   number_loop remaining idx gs = number_loop (remaining div 1000) (idx + 1) gs"
  by (subst number_loop.simps) simp

lemma number_loop_step_word:
  "0 < remaining \<Longrightarrow> remaining mod 1000 \<noteq> 0 \<Longrightarrow>
   loop_group_words idx (remaining mod 1000) = Inr w \<Longrightarrow>
   number_loop remaining idx gs = number_loop (remaining div 1000) (idx + 1) (gs @ [w])"
  by (subst number_loop.simps) simp

lemma number_loop_step_error:
  "0 < remaining \<Longrightarrow> remaining mod 1000 \<noteq> 0 \<Longrightarrow>
   loop_group_words idx (remaining mod 1000) = Inl e \<Longrightarrow>
   number_loop remaining idx gs = Inl e"
  by (subst number_loop.simps) simp

lemma group_range: "remaining mod 1000 \<noteq> 0 \<Longrightarrow> 1 \<le> remaining mod 1000 \<and> remaining mod 1000 \<le> (999::int)"
  using pos_mod_sign [of 1000 remaining] pos_mod_bound [of 1000 remaining] by linarith

lemma div_small: "(r::int) < 1000 * m \<Longrightarrow> r div 1000 < m"
  by linarith

lemma div_big: "1000 * m \<le> (r::int) \<Longrightarrow> m \<le> r div 1000"
  by linarith

lemma div_pos: "0 < (r::int) \<Longrightarrow> r mod 1000 = 0 \<Longrightarrow> 0 < r div 1000"
  by auto

lemma number_loop_returns:
  "0 \<le> idx \<Longrightarrow> idx + int k = int (length SCALE) \<Longrightarrow> remaining < 1000 ^ k \<Longrightarrow>
   \<exists>gs'. number_loop remaining idx gs = Inr gs'"
proof (induction k arbitrary: remaining idx gs)
  case 0
  then show ?case by (simp add: number_loop_stop)
next
  case (Suc k)
  show ?case
  proof (cases "0 < remaining")
    case False
    then show ?thesis by (simp add: number_loop_stop)
  next
    case True
    from Suc.prems(3) have small: "remaining div 1000 < 1000 ^ k" by (simp add: div_small)
    from Suc.prems have idx: "0 \<le> idx" "idx < int (length SCALE)" "0 \<le> idx + 1"
      "idx + 1 + int k = int (length SCALE)" by simp_all
    show ?thesis
    proof (cases "remaining mod 1000 = 0")
      case True
      with \<open>0 < remaining\<close> Suc.IH [OF idx(3,4) small] show ?thesis
        by (simp add: number_loop_step_zero)
    next
      case False
      from loop_group_words_returns [OF idx(1,2)] group_range [OF False]
      obtain w where "loop_group_words idx (remaining mod 1000) = Inr w" by blast
      with \<open>0 < remaining\<close> False Suc.IH [OF idx(3,4) small] show ?thesis
        by (simp add: number_loop_step_word)
    qed
  qed
qed


lemma number_loop_raises_beyond:
  "int (length SCALE) \<le> idx \<Longrightarrow> 0 < remaining \<Longrightarrow> number_loop remaining idx gs = Inl IndexError"
proof (induction remaining idx gs rule: number_loop.induct)
  case (1 remaining scale_idx groups)
  show ?case
  proof (cases "remaining mod 1000 = 0")
    case True
    with "1.prems" have "0 < remaining div 1000" by (simp add: div_pos)
    with "1.IH"(2) [OF "1.prems"(2) _ ] True "1.prems" show ?thesis
      by (simp add: number_loop_step_zero)
  next
    case False
    from group_range [OF False] obtain w where "number_under_1000 (remaining mod 1000) = Inr w"
      using number_under_1000_returns [of "remaining mod 1000"] by auto
    with "1.prems"(1) have "loop_group_words scale_idx (remaining mod 1000) = Inl IndexError"
      by (rule loop_group_words_beyond)
    with "1.prems"(2) False show ?thesis by (rule number_loop_step_error)
  qed
qed

lemma number_loop_raises:
  "0 \<le> idx \<Longrightarrow> idx + int k = int (length SCALE) \<Longrightarrow> 1000 ^ k \<le> remaining \<Longrightarrow>
   number_loop remaining idx gs = Inl IndexError"
proof (induction k arbitrary: remaining idx gs)
  case 0
  then show ?case by (simp add: number_loop_raises_beyond)
next
  case (Suc k)
  have "(0::int) < 1000 ^ Suc k" by simp
  with Suc.prems(3) have pos: "0 < remaining" by linarith
  from Suc.prems(3) have big: "1000 ^ k \<le> remaining div 1000" by (simp add: div_big)
  from Suc.prems have idx: "0 \<le> idx" "idx < int (length SCALE)" "0 \<le> idx + 1"
    "idx + 1 + int k = int (length SCALE)" by simp_all
  show ?case
  proof (cases "remaining mod 1000 = 0")
    case True
    with pos Suc.IH [OF idx(3,4) big] show ?thesis
      by (simp add: number_loop_step_zero)
  next
    case False
    from loop_group_words_returns [OF idx(1,2)] group_range [OF False]
    obtain w where "loop_group_words idx (remaining mod 1000) = Inr w" by blast
    with pos False Suc.IH [OF idx(3,4) big] show ?thesis
      by (simp add: number_loop_step_word)
  qed
qed

lemma number_to_words_positive:
  assumes "0 < n"
  shows "(\<exists>s. number_to_words n = Inr s) \<longleftrightarrow> n < 1000 ^ length SCALE"
proof (cases "n < 1000 ^ length SCALE")
  case True
  from number_loop_returns [of 0 "length SCALE" n "[]"] True
  obtain gs where "number_loop n 0 [] = Inr gs" by auto
  with assms True show ?thesis by (simp add: number_to_words.simps)
next
  case False
  with number_loop_raises [of 0 "length SCALE" n "[]"]
  have "number_loop n 0 [] = Inl IndexError" by simp
  with assms False show ?thesis by (simp add: number_to_words.simps)
qed

text \<open>
  Claim C2, as amended. \<^verbatim>\<open>number_to_words\<close> returns a text exactly for the integers of
  absolute value below \<open>10 ^ 15\<close>, the range that the five entries of the scale table
  cover; for every other integer the read of the scale table raises \<^verbatim>\<open>IndexError\<close>.
\<close>

theorem number_to_words_returns_iff:
  "(\<exists>s. number_to_words n = Inr s) \<longleftrightarrow> \<bar>n\<bar> < 10 ^ 15"
proof -
  have scale: "(1000::int) ^ length SCALE = 10 ^ 15" by (simp add: table_lengths)
  consider "n = 0" | "0 < n" | "n < 0" by linarith
  then show ?thesis
  proof cases
    case 1
    then show ?thesis by (simp add: number_to_words.simps)
  next
    case 2
    with number_to_words_positive [OF 2] scale show ?thesis by simp
  next
    case 3
    then have pos: "0 < - n" by simp
    from 3 have "number_to_words n =
        (case number_to_words (- n) of Inl e \<Rightarrow> Inl e | Inr w \<Rightarrow> Inr (NEGATIVE_PREFIX @ w))"
      by (subst number_to_words.simps) simp
    then have "(\<exists>s. number_to_words n = Inr s) \<longleftrightarrow> (\<exists>s. number_to_words (- n) = Inr s)"
      by (cases "number_to_words (- n)") simp_all
    with number_to_words_positive [OF pos] scale 3 show ?thesis by simp
  qed
qed

theorem number_to_words_returns_iff_witness:
  "\<bar>- 2025 :: int\<bar> < 10 ^ 15 \<and> (\<exists>s. number_to_words (- 2025) = Inr s)"
  using number_to_words_returns_iff [of "- 2025"] by simp

text \<open>The first integer outside the range: the sixth group has no entry in the scale table.\<close>

theorem number_to_words_raises_at_scale_end:
  "number_to_words 1000000000000000 = Inl IndexError"
  by (simp add: encoder_defs table_defs literal_defs)

lemma words_of_0: "number_to_words 0 = Inr [SAD, FEH, REH]"
  by (simp add: encoder_defs table_defs literal_defs)

lemma words_of_1: "number_to_words 1 = Inr [WAW, ALEF, HAH, DAL]"
  by (simp add: encoder_defs table_defs literal_defs)

lemma words_of_15:
  "number_to_words 15 = Inr [KHAH, MEEM, SEEN, TEH_MARBUTA, SPACE, AIN, SHEEN, REH]"
  by (simp add: encoder_defs table_defs literal_defs)

lemma words_of_20: "number_to_words 20 = Inr [AIN, SHEEN, REH, WAW, NOON]"
  by (simp add: encoder_defs table_defs literal_defs)

lemma words_of_123:
  "number_to_words 123 =
   Inr ([MEEM, YEH_HAMZA, TEH_MARBUTA] @ [SPACE, WAW] @ [THEH, LAM, ALEF, THEH, TEH_MARBUTA] @
        [SPACE, WAW] @ [AIN, SHEEN, REH, WAW, NOON])"
  by (simp add: encoder_defs table_defs literal_defs)

lemma words_of_1000: "number_to_words 1000 = Inr [ALEF_HAMZA, LAM, FEH]"
  by (simp add: encoder_defs table_defs literal_defs)

lemma words_of_2025:
  "number_to_words 2025 =
   Inr ([ALEF_HAMZA, LAM, FEH, ALEF, NOON] @ [SPACE, WAW] @ [KHAH, MEEM, SEEN, TEH_MARBUTA] @
        [SPACE, WAW] @ [AIN, SHEEN, REH, WAW, NOON])"
  by (simp add: encoder_defs table_defs literal_defs)

lemma words_of_minus_5:
  "number_to_words (- 5) = Inr ([SEEN, ALEF, LAM, BEH] @ [SPACE] @ [KHAH, MEEM, SEEN, TEH_MARBUTA])"
  by (simp add: encoder_defs table_defs literal_defs)

text \<open>
  Claim C5. The eight fixed examples: 0, 1, 15, 20, 123, 1000, 2025 and -5 are encoded as
  the specification lists them, code point for code point.
\<close>

theorem number_to_words_examples:
  "number_to_words 0 = Inr [SAD, FEH, REH] \<and>
   number_to_words 1 = Inr [WAW, ALEF, HAH, DAL] \<and>
   number_to_words 15 = Inr [KHAH, MEEM, SEEN, TEH_MARBUTA, SPACE, AIN, SHEEN, REH] \<and>
   number_to_words 20 = Inr [AIN, SHEEN, REH, WAW, NOON] \<and>
   number_to_words 123 =
     Inr ([MEEM, YEH_HAMZA, TEH_MARBUTA] @ [SPACE, WAW] @ [THEH, LAM, ALEF, THEH, TEH_MARBUTA] @
          [SPACE, WAW] @ [AIN, SHEEN, REH, WAW, NOON]) \<and>
   number_to_words 1000 = Inr [ALEF_HAMZA, LAM, FEH] \<and>
   number_to_words 2025 =
     Inr ([ALEF_HAMZA, LAM, FEH, ALEF, NOON] @ [SPACE, WAW] @ [KHAH, MEEM, SEEN, TEH_MARBUTA] @
          [SPACE, WAW] @ [AIN, SHEEN, REH, WAW, NOON]) \<and>
   number_to_words (- 5) = Inr ([SEEN, ALEF, LAM, BEH] @ [SPACE] @ [KHAH, MEEM, SEEN, TEH_MARBUTA])"
  by (intro conjI words_of_0 words_of_1 words_of_15 words_of_20 words_of_123 words_of_1000
      words_of_2025 words_of_minus_5)

lemma number_to_words_of_positive:
  "0 < n \<Longrightarrow>
   number_to_words n =
     (case number_loop n 0 [] of
        Inl e \<Rightarrow> Inl e
      | Inr groups \<Rightarrow> Inr (join_str CONJ_SEP (rev groups)))"
  by (subst number_to_words.simps) simp

lemma number_loop_shift:
  "0 < r \<Longrightarrow> number_loop (r * 1000 ^ t) idx gs = number_loop r (idx + int t) gs"
proof (induction t arbitrary: idx)
  case 0
  then show ?case by simp
next
  case (Suc t)
  have pos: "0 < r * 1000 ^ t" using Suc.prems by simp
  have "r * 1000 ^ Suc t = r * 1000 ^ t * 1000" by simp
  then have "number_loop (r * 1000 ^ Suc t) idx gs = number_loop (r * 1000 ^ t * 1000) idx gs"
    by (rule arg_cong)
  also have "\<dots> = number_loop (r * 1000 ^ t) (idx + 1) gs"
    using pos by (subst number_loop_step_zero) simp_all
  also have "\<dots> = number_loop r (idx + 1 + int t) gs"
    by (rule Suc.IH [OF Suc.prems])
  also have "idx + 1 + int t = idx + int (Suc t)" by simp
  finally show ?case .
qed

lemma number_loop_single_group:
  assumes "1 \<le> g" and "g \<le> 999" and "loop_group_words idx g = Inr w"
  shows "number_loop g idx [] = Inr [w]"
proof -
  from assms(1,2) have "g mod 1000 = g" "g div 1000 = 0" by simp_all
  with assms show ?thesis
    by (subst number_loop_step_word [where w = w]) (simp_all add: number_loop_stop)
qed

text \<open>
  Claim C4. Let \<open>t\<close> be a tier of the scale table above the units, with singular and plural
  forms \<open>singular\<close> and \<open>plural\<close>, and \<open>g\<close> a group value from 1 to 999. The group has
  under-1000 words \<open>w\<close>, and the words that the loop of \<^verbatim>\<open>number_to_words\<close> builds for the
  group are those of the tier-agreement rule: the singular alone for 1, the singular with
  the dual ending for 2, \<open>w\<close> followed by the plural for 3 to 10, and \<open>w\<close> followed by the
  singular from 11 on. Whatever the number being encoded, the iteration of the loop that
  meets this group at this tier appends exactly these words to the list of groups. They
  are also the whole output for the number \<open>g * 1000 ^ t\<close>, whose only nonzero group is
  this one.
\<close>

theorem tier_agreement:
  assumes "1 \<le> t" and "t < length SCALE" and "1 \<le> g" and "g \<le> 999"
    and "SCALE ! t = (singular, plural)"
  shows "\<exists>w. number_under_1000 g = Inr w \<and>
           loop_group_words (int t) g = Inr (spec_tier_words singular plural w g) \<and>
           (\<forall>remaining groups. 0 < remaining \<and> remaining mod 1000 = g \<longrightarrow>
              number_loop remaining (int t) groups =
              number_loop (remaining div 1000) (int t + 1)
                (groups @ [spec_tier_words singular plural w g])) \<and>
           number_to_words (g * 1000 ^ t) = Inr (spec_tier_words singular plural w g)"
proof -
  from assms(3,4) obtain w where w: "number_under_1000 g = Inr w"
    using number_under_1000_returns [of g] by auto
  from loop_group_words_tier [OF assms(1,2) w] assms(5)
  have body: "loop_group_words (int t) g = Inr (spec_tier_words singular plural w g)" by simp
  have step: "number_loop remaining (int t) groups =
      number_loop (remaining div 1000) (int t + 1)
        (groups @ [spec_tier_words singular plural w g])"
    if "0 < remaining \<and> remaining mod 1000 = g" for remaining groups
  proof -
    from that assms(3) have "0 < remaining" and "remaining mod 1000 \<noteq> 0" by auto
    moreover from that body
    have "loop_group_words (int t) (remaining mod 1000) =
          Inr (spec_tier_words singular plural w g)" by simp
    ultimately show ?thesis by (rule number_loop_step_word)
  qed
  have pos: "0 < g * 1000 ^ t" using assms(3) by simp
  have "number_loop (g * 1000 ^ t) 0 [] = number_loop g (int t) []"
    using assms(3) number_loop_shift [of g t 0 "[]"] by simp
  also have "\<dots> = Inr [spec_tier_words singular plural w g]"
    using assms(3,4) body by (rule number_loop_single_group)
  finally have "number_to_words (g * 1000 ^ t) = Inr (spec_tier_words singular plural w g)"
    by (simp add: number_to_words_of_positive [OF pos])
  with w body step show ?thesis by blast
qed

theorem tier_agreement_witness:
  "(1::nat) \<le> 1 \<and> 1 < length SCALE \<and> (1::int) \<le> 2 \<and> (2::int) \<le> 999 \<and>
   SCALE ! 1 = ([ALEF_HAMZA, LAM, FEH], [ALEF_MADDA, LAM, ALEF, FEH]) \<and>
   (\<exists>w. number_under_1000 2 = Inr w) \<and>
   loop_group_words (int 1) 2 = Inr [ALEF_HAMZA, LAM, FEH, ALEF, NOON] \<and>
   (0::int) < 2002 \<and> (2002::int) mod 1000 = 2 \<and>
   number_loop 2002 (int 1) [[]] =
     number_loop (2002 div 1000) (int 1 + 1) ([[]] @ [[ALEF_HAMZA, LAM, FEH, ALEF, NOON]]) \<and>
   number_to_words (2 * 1000 ^ 1) = Inr [ALEF_HAMZA, LAM, FEH, ALEF, NOON]"
proof -
  have scale: "SCALE ! 1 = ([ALEF_HAMZA, LAM, FEH], [ALEF_MADDA, LAM, ALEF, FEH])"
    by (simp add: SCALE_def)
  have dual: "spec_tier_words [ALEF_HAMZA, LAM, FEH] [ALEF_MADDA, LAM, ALEF, FEH] w 2 =
      [ALEF_HAMZA, LAM, FEH, ALEF, NOON]" for w
    by (simp add: spec_tier_words_def spec_dual_def DUAL_ENDING_def)
  have "(1::nat) \<le> 1" "1 < length SCALE" "(1::int) \<le> 2" "(2::int) \<le> 999"
    by (simp_all add: table_lengths)
  from tier_agreement [OF this scale]
  obtain w where w: "number_under_1000 2 = Inr w"
    and body: "loop_group_words (int 1) 2 = Inr [ALEF_HAMZA, LAM, FEH, ALEF, NOON]"
    and step: "\<forall>remaining groups. 0 < remaining \<and> remaining mod 1000 = 2 \<longrightarrow>
        number_loop remaining (int 1) groups =
        number_loop (remaining div 1000) (int 1 + 1)
          (groups @ [[ALEF_HAMZA, LAM, FEH, ALEF, NOON]])"
    and whole: "number_to_words (2 * 1000 ^ 1) = Inr [ALEF_HAMZA, LAM, FEH, ALEF, NOON]"
    unfolding dual by blast
  have pre: "(0::int) < 2002 \<and> (2002::int) mod 1000 = 2" by simp
  from step pre have "number_loop 2002 (int 1) [[]] =
     number_loop (2002 div 1000) (int 1 + 1) ([[]] @ [[ALEF_HAMZA, LAM, FEH, ALEF, NOON]])"
    by blast
  with w body whole pre scale show ?thesis
    by (simp add: table_lengths)
qed

section \<open>Properties of the word decoder\<close>

lemma replace_scan_same_aux: "new = old \<Longrightarrow> old \<noteq> [] \<Longrightarrow> replace_scan old new s = s"
proof (induction old new s rule: replace_scan.induct)
  case (1 old new)
  then show ?case by simp
next
  case (2 old new c cs)
  show ?case
  proof (cases "prefix old (c # cs)")
    case True
    then obtain zs where zs: "c # cs = old @ zs" by (auto simp: prefix_def)
    with "2.prems" have d: "drop (length old - 1) cs = zs"
      by (cases old) auto
    have "replace_scan old new (c # cs) = new @ replace_scan old new (drop (length old - 1) cs)"
      using True by simp
    also have "\<dots> = old @ zs"
      using "2.IH"(1) [OF True "2.prems"] "2.prems"(1) d by simp
    also have "\<dots> = c # cs"
      using zs by simp
    finally show ?thesis .
  next
    case False
    with "2.IH"(2) "2.prems" show ?thesis by simp
  qed
qed

lemma replace_scan_same: "old \<noteq> [] \<Longrightarrow> replace_scan old old s = s"
  by (rule replace_scan_same_aux) simp_all

lemma replace_str_same: "replace_str s old old = s"
  by (simp add: replace_str_def replace_scan_same)

lemma words_to_number_unfold:
  "words_to_number text =
     (if strip text = ZERO_WORD then 0
      else sum_parts (map strip (split_str (strip text) WAW)) 0)"
  by (simp add: words_to_number_def Let_def replace_str_same)

lemma word_entries_eq:
  "word_entries =
    [([WAW, ALEF, HAH, DAL], 1), ([ALEF, THEH, NOON, ALEF, NOON], 2),
     ([THEH, LAM, ALEF, THEH, TEH_MARBUTA], 3),
     ([ALEF_HAMZA, REH, BEH, AIN, TEH_MARBUTA], 4),
     ([KHAH, MEEM, SEEN, TEH_MARBUTA], 5), ([SEEN, TEH, TEH_MARBUTA], 6),
     ([SEEN, BEH, AIN, TEH_MARBUTA], 7),
     ([THEH, MEEM, ALEF, NOON, YEH, TEH_MARBUTA], 8),
     ([TEH, SEEN, AIN, TEH_MARBUTA], 9), ([AIN, SHEEN, REH, TEH_MARBUTA], 10),
     ([ALEF_HAMZA, HAH, DAL, SPACE, AIN, SHEEN, REH], 11),
     ([ALEF, THEH, NOON, ALEF, SPACE, AIN, SHEEN, REH], 12),
     ([THEH, LAM, ALEF, THEH, TEH_MARBUTA, SPACE, AIN, SHEEN, REH], 13),
     ([ALEF_HAMZA, REH, BEH, AIN, TEH_MARBUTA, SPACE, AIN, SHEEN, REH], 14),
     ([KHAH, MEEM, SEEN, TEH_MARBUTA, SPACE, AIN, SHEEN, REH], 15),
     ([SEEN, TEH, TEH_MARBUTA, SPACE, AIN, SHEEN, REH], 16),
     ([SEEN, BEH, AIN, TEH_MARBUTA, SPACE, AIN, SHEEN, REH], 17),
     ([THEH, MEEM, ALEF, NOON, YEH, TEH_MARBUTA, SPACE, AIN, SHEEN, REH], 18),
     ([TEH, SEEN, AIN, TEH_MARBUTA, SPACE, AIN, SHEEN, REH], 19),
     ([AIN, SHEEN, REH, WAW, NOON], 20),
     ([THEH, LAM, ALEF, THEH, WAW, NOON], 30),
     ([ALEF_HAMZA, REH, BEH, AIN, WAW, NOON], 40),
     ([KHAH, MEEM, SEEN, WAW, NOON], 50), ([SEEN, TEH, WAW, NOON], 60),
     ([SEEN, BEH, AIN, WAW, NOON], 70),
     ([THEH, MEEM, ALEF, NOON, WAW, NOON], 80),
     ([TEH, SEEN, AIN, WAW, NOON], 90), ([MEEM, YEH_HAMZA, TEH_MARBUTA], 100),
     ([MEEM, YEH_HAMZA, TEH, ALEF, NOON], 200),
     ([THEH, LAM, ALEF, THEH, MEEM, YEH_HAMZA, TEH_MARBUTA], 300),
     ([ALEF_HAMZA, REH, BEH, AIN, MEEM, YEH_HAMZA, TEH_MARBUTA], 400),
     ([KHAH, MEEM, SEEN, MEEM, YEH_HAMZA, TEH_MARBUTA], 500),
     ([SEEN, TEH, MEEM, YEH_HAMZA, TEH_MARBUTA], 600),
     ([SEEN, BEH, AIN, MEEM, YEH_HAMZA, TEH_MARBUTA], 700),
     ([THEH, MEEM, ALEF, NOON, MEEM, YEH_HAMZA, TEH_MARBUTA], 800),
     ([TEH, SEEN, AIN, MEEM, YEH_HAMZA, TEH_MARBUTA], 900),
     ([ALEF_HAMZA, LAM, FEH], 1000),
     ([ALEF_HAMZA, LAM, FEH, ALEF, NOON], 2000),
     ([MEEM, LAM, YEH, WAW, NOON], 1000000),
     ([MEEM, LAM, YEH, ALEF, REH], 1000000000)]"
  by (simp add: word_entries_def table_defs enumerate_eq_zip upt_rec)

lemma word_entries_nonneg: "list_all (\<lambda>(w, v). 0 \<le> v) word_entries"
  by (simp add: word_entries_eq)

lemma word_map_nonneg: "word_map w = Some v \<Longrightarrow> 0 \<le> v"
proof -
  assume "word_map w = Some v"
  then have "(w, v) \<in> set word_entries"
    unfolding word_map_def by (auto dest: map_of_SomeD)
  with word_entries_nonneg show ?thesis by (auto simp: list_all_iff)
qed

lemma sum_parts_eq:
  "sum_parts parts tot =
   tot + (\<Sum>part\<leftarrow>parts. case word_map (strip part) of None \<Rightarrow> 0 | Some v \<Rightarrow> v)"
  by (induction parts arbitrary: tot) (simp_all add: Let_def split: option.splits)

lemma sum_parts_nonneg: "0 \<le> tot \<Longrightarrow> 0 \<le> sum_parts parts tot"
proof (induction parts arbitrary: tot)
  case Nil
  then show ?case by simp
next
  case (Cons part parts)
  show ?case
  proof (cases "word_map (strip part)")
    case None
    with Cons show ?thesis by simp
  next
    case (Some v)
    with word_map_nonneg [OF Some] Cons show ?thesis by simp
  qed
qed

lemma words_to_number_nonneg: "0 \<le> words_to_number text"
  by (simp add: words_to_number_unfold sum_parts_nonneg)

lemma strip_idem: "strip (strip s) = strip s"
proof -
  define a where "a = dropWhile is_space s"
  define b where "b = rev (dropWhile is_space (rev a))"
  have sb: "strip s = b" by (simp add: strip_def a_def b_def)
  have "rev (takeWhile is_space (rev a) @ dropWhile is_space (rev a)) = a"
    by (simp only: takeWhile_dropWhile_id rev_rev_ident)
  then have split: "a = b @ rev (takeWhile is_space (rev a))"
    by (simp only: rev_append b_def)
  have leading: "dropWhile is_space b = b"
  proof (cases "b = []")
    case True
    then show ?thesis by simp
  next
    case False
    from split obtain c where c: "a = b @ c" ..
    from False have "a \<noteq> []" and "hd a = hd b" unfolding c by simp_all
    moreover from \<open>a \<noteq> []\<close> have "\<not> is_space (hd a)"
      unfolding a_def by (rule hd_dropWhile)
    ultimately show ?thesis by (simp add: dropWhile_eq_self_iff)
  qed
  have trailing: "dropWhile is_space (rev b) = rev b"
    by (simp add: b_def)
  have "strip b = b"
    by (simp add: strip_def leading trailing)
  with sb show ?thesis by simp
qed

lemma words_to_number_sum:
  "words_to_number text =
     (if strip text = ZERO_WORD then 0
      else (\<Sum>part\<leftarrow>split_str (strip text) WAW.
              case word_map (strip part) of None \<Rightarrow> 0 | Some v \<Rightarrow> v))"
  by (simp add: words_to_number_unfold sum_parts_eq strip_idem comp_def)

lemmas decoder_defs = words_to_number_unfold strip_def is_space_def split_str_def
  word_map_def word_entries_eq ZERO_WORD_def

lemma decode_zero: "words_to_number [SAD, FEH, REH] = 0"
  by (simp add: decoder_defs)

lemma decode_three: "words_to_number [THEH, LAM, ALEF, THEH, TEH_MARBUTA] = 3"
  by (simp add: decoder_defs)

lemma decode_fifteen:
  "words_to_number [KHAH, MEEM, SEEN, TEH_MARBUTA, SPACE, AIN, SHEEN, REH] = 15"
  by (simp add: decoder_defs)

lemma decode_unknown: "words_to_number [0x78, 0x79, 0x7A] = 0"
  by (simp add: decoder_defs)

lemma decode_known_and_unknown:
  "words_to_number ([THEH, LAM, ALEF, THEH, TEH_MARBUTA] @ [SPACE, WAW] @ [0x78, 0x79, 0x7A]) = 3"
  by (simp add: decoder_defs)

lemma decode_one: "words_to_number [WAW, ALEF, HAH, DAL] = 0"
  by (simp add: decoder_defs)

lemma split_one: "split_str [WAW, ALEF, HAH, DAL] WAW = [[], [ALEF, HAH, DAL]]"
  by (simp add: split_str_def)

lemma word_map_one: "word_map [WAW, ALEF, HAH, DAL] = Some 1"
  by (simp add: word_map_def word_entries_eq)

lemma decode_thousand: "words_to_number [ALEF_HAMZA, LAM, FEH] = 1000"
  by (simp add: decoder_defs)

lemma decode_two_thousand: "words_to_number [ALEF_HAMZA, LAM, FEH, ALEF, NOON] = 2000"
  by (simp add: decoder_defs)

lemma decode_million: "words_to_number [MEEM, LAM, YEH, WAW, NOON] = 0"
  by (simp add: decoder_defs)

lemma split_million: "split_str [MEEM, LAM, YEH, WAW, NOON] WAW = [[MEEM, LAM, YEH], [NOON]]"
  by (simp add: split_str_def)

lemma word_map_million: "word_map [MEEM, LAM, YEH, WAW, NOON] = Some 1000000"
  by (simp add: word_map_def word_entries_eq)

lemma decode_milliard: "words_to_number [MEEM, LAM, YEH, ALEF, REH] = 1000000000"
  by (simp add: decoder_defs)

lemma word_map_negative_marker: "word_map [SEEN, ALEF, LAM, BEH] = None"
  by (simp add: word_map_def word_entries_eq)

lemma decode_minus_five:
  "words_to_number ([SEEN, ALEF, LAM, BEH] @ [SPACE] @ [KHAH, MEEM, SEEN, TEH_MARBUTA]) = 0"
  by (simp add: decoder_defs)

text \<open>
  Claim C9. \<^verbatim>\<open>words_to_number\<close> is a function from texts to integers built from steps that
  cannot raise (trimming, replacing, splitting at a one-letter separator, dictionary
  membership, addition). Its value is 0 for the zero word and otherwise the sum, over the
  parts of the trimmed text, of the table value of each trimmed part, a part that is not
  in the table counting for 0. In particular the zero word gives 0, the word for three
  gives 3, the word for fifteen gives 15, a text of unknown letters gives 0, and an unknown
  part next to a known one adds nothing.
\<close>

theorem words_to_number_lenient:
  "words_to_number text =
     (if strip text = ZERO_WORD then 0
      else (\<Sum>part\<leftarrow>split_str (strip text) WAW.
              case word_map (strip part) of None \<Rightarrow> 0 | Some v \<Rightarrow> v)) \<and>
   words_to_number [SAD, FEH, REH] = 0 \<and>
   words_to_number [THEH, LAM, ALEF, THEH, TEH_MARBUTA] = 3 \<and>
   words_to_number [KHAH, MEEM, SEEN, TEH_MARBUTA, SPACE, AIN, SHEEN, REH] = 15 \<and>
   words_to_number [0x78, 0x79, 0x7A] = 0 \<and>
   words_to_number ([THEH, LAM, ALEF, THEH, TEH_MARBUTA] @ [SPACE, WAW] @ [0x78, 0x79, 0x7A]) = 3"
  by (intro conjI words_to_number_sum decode_zero decode_three decode_fifteen decode_unknown
      decode_known_and_unknown)

text \<open>
  Claim C10. \<^verbatim>\<open>words_to_number\<close> returns a non-negative integer for every text: no entry
  of the table has a negative value, and the negative marker is not a key of the table.
  The encoding of -5, for one, decodes to 0.
\<close>

theorem words_to_number_nonnegative:
  "0 \<le> words_to_number text \<and>
   list_all (\<lambda>(w, v). 0 \<le> v) word_entries \<and>
   word_map [SEEN, ALEF, LAM, BEH] = None \<and>
   number_to_words (- 5) = Inr ([SEEN, ALEF, LAM, BEH] @ [SPACE] @ [KHAH, MEEM, SEEN, TEH_MARBUTA]) \<and>
   words_to_number ([SEEN, ALEF, LAM, BEH] @ [SPACE] @ [KHAH, MEEM, SEEN, TEH_MARBUTA]) = 0"
  by (intro conjI words_to_number_nonneg word_entries_nonneg word_map_negative_marker
      words_of_minus_5 decode_minus_five)

text \<open>
  Claim C1 fails on the code at \<open>n = 1\<close>. The encoder gives the word for one, which begins
  with the letter waw; the decoder splits the text at every letter waw, so the parts are
  the empty text and the rest of the word, neither of which is a key, and the result is 0.
  The table does hold the word for one with value 1, but no part can ever contain a waw.
\<close>

theorem roundtrip_fails_at_one:
  "number_to_words 1 = Inr [WAW, ALEF, HAH, DAL] \<and>
   word_map [WAW, ALEF, HAH, DAL] = Some 1 \<and>
   split_str [WAW, ALEF, HAH, DAL] WAW = [[], [ALEF, HAH, DAL]] \<and>
   words_to_number [WAW, ALEF, HAH, DAL] = 0"
  by (intro conjI words_of_1 word_map_one split_one decode_one)

text \<open>
  Claim C3 fails on the code at the word for million. The words for thousand, two thousand
  and milliard decode to their table values. The word for million is a key of the table
  with value 1000000, but it contains the letter waw, so the decoder splits it into two
  parts that are not keys, and the result is 0.
\<close>

theorem scale_words_decoded:
  "words_to_number [ALEF_HAMZA, LAM, FEH] = 1000 \<and>
   words_to_number [ALEF_HAMZA, LAM, FEH, ALEF, NOON] = 2000 \<and>
   words_to_number [MEEM, LAM, YEH, ALEF, REH] = 1000000000 \<and>
   word_map [MEEM, LAM, YEH, WAW, NOON] = Some 1000000 \<and>
   split_str [MEEM, LAM, YEH, WAW, NOON] WAW = [[MEEM, LAM, YEH], [NOON]] \<and>
   words_to_number [MEEM, LAM, YEH, WAW, NOON] = 0"
  by (intro conjI decode_thousand decode_two_thousand decode_milliard word_map_million
      split_million decode_million)

end
